theory Spec2Isabelle
  imports Main "HOL-Library.FSet" "HOL-Library.Sublist"
begin

section \<open>Path primitives of the Python library used by video/models.py\<close>

text \<open>
  The module calls \<^verbatim>\<open>os.path.split\<close>, \<^verbatim>\<open>os.path.join\<close> and \<^verbatim>\<open>os.path.splitext\<close>
  of \<^verbatim>\<open>posixpath\<close>. They are pure string functions; their library code is embedded here
  line by line. A Python \<^verbatim>\<open>str\<close> is a \<open>string\<close>, an index is an \<open>int\<close> as in Python
  (\<^verbatim>\<open>rfind\<close> answers \<open>-1\<close> when the character is absent).
\<close>

fun rfind_from :: "char \<Rightarrow> string \<Rightarrow> int \<Rightarrow> int \<Rightarrow> int" where
  "rfind_from c [] i found = found"
| "rfind_from c (x # xs) i found = rfind_from c xs (i + 1) (if x = c then i else found)"

definition rfind :: "string \<Rightarrow> char \<Rightarrow> int" where
  \<comment> \<open>\<^verbatim>\<open>p.rfind(c)\<close>: the highest index of \<open>c\<close> in \<open>p\<close>, or \<open>-1\<close>.\<close>
  "rfind p c = rfind_from c p 0 (- 1)"

definition rstrip :: "char \<Rightarrow> string \<Rightarrow> string" where
  \<comment> \<open>\<^verbatim>\<open>s.rstrip(c)\<close> for a one-character argument.\<close>
  "rstrip c s = rev (dropWhile (\<lambda>x. x = c) (rev s))"

definition startswith :: "string \<Rightarrow> char \<Rightarrow> bool" where
  "startswith s c = (case s of [] \<Rightarrow> False | x # _ \<Rightarrow> x = c)"

definition endswith :: "string \<Rightarrow> char \<Rightarrow> bool" where
  "endswith s c = (case rev s of [] \<Rightarrow> False | x # _ \<Rightarrow> x = c)"

definition os_path_split :: "string \<Rightarrow> string \<times> string" where
  \<comment> \<open>\<^verbatim>\<open>i = p.rfind('/') + 1; head, tail = p[:i], p[i:];
      if head and head != '/'*len(head): head = head.rstrip('/')\<close>\<close>
  "os_path_split p =
     (let i = nat (rfind p CHR ''/'' + 1);
          head = take i p;
          tail = drop i p
      in (if head \<noteq> [] \<and> head \<noteq> replicate (length head) CHR ''/''
          then rstrip CHR ''/'' head else head, tail))"

definition os_path_join :: "string \<Rightarrow> string \<Rightarrow> string" where
  \<comment> \<open>\<^verbatim>\<open>if b.startswith('/'): path = b
      elif not path or path.endswith('/'): path += b
      else: path += '/' + b\<close>\<close>
  "os_path_join a b =
     (if startswith b CHR ''/'' then b
      else if a = [] \<or> endswith a CHR ''/'' then a @ b
      else a @ ''/'' @ b)"

text \<open>
  The loop of \<^verbatim>\<open>genericpath._splitext\<close> that skips the leading dots of the last component:
  it answers \<open>True\<close> where the Python returns \<^verbatim>\<open>p[:dotIndex], p[dotIndex:]\<close> from inside
  the loop and \<open>False\<close> where the loop runs out.
\<close>

function skip_dots :: "string \<Rightarrow> nat \<Rightarrow> nat \<Rightarrow> bool" where
  "skip_dots p filenameIndex dotIndex =
     (if filenameIndex < dotIndex
      then (if take 1 (drop filenameIndex p) \<noteq> ''.'' then True
            else skip_dots p (filenameIndex + 1) dotIndex)
      else False)"
  by pat_completeness auto
termination
  by (relation "measure (\<lambda>(p, filenameIndex, dotIndex). dotIndex - filenameIndex)") auto

declare skip_dots.simps [simp del]

definition os_path_splitext :: "string \<Rightarrow> string \<times> string" where
  \<comment> \<open>\<^verbatim>\<open>sepIndex = p.rfind('/'); dotIndex = p.rfind('.')
      if dotIndex > sepIndex: (the loop above)
      return p, p[:0]\<close>\<close>
  "os_path_splitext p =
     (let sepIndex = rfind p CHR ''/'';
          dotIndex = rfind p CHR ''.''
      in if dotIndex > sepIndex \<and> skip_dots p (nat (sepIndex + 1)) (nat dotIndex)
         then (take (nat dotIndex) p, drop (nat dotIndex) p)
         else (p, []))"

section \<open>GlossVideoStorage.get_valid_name\<close>

definition get_valid_name :: "string \<Rightarrow> string" where
  \<comment> \<open>\<^verbatim>\<open>(targetdir, basename) = os.path.split(name)
      path = os.path.join(str(basename)[:2], str(basename))
      result = os.path.join(targetdir, path)\<close>\<close>
  "get_valid_name name =
     (let (targetdir, basename) = os_path_split name;
          path = os_path_join (take 2 basename) basename;
          result = os_path_join targetdir path
      in result)"

section \<open>Filesystem, exceptions and the calls a method makes\<close>

text \<open>
  The filesystem is three finite sets of paths. \<open>present\<close> holds the paths at which
  \<^verbatim>\<open>os.path.exists\<close> is true: files, directories, and symbolic links whose target
  exists. \<open>dangling\<close> holds the symbolic links whose target is missing:
  \<^verbatim>\<open>os.path.exists\<close> follows the link and is false for them, while \<^verbatim>\<open>os.rename\<close> and
  \<^verbatim>\<open>os.unlink\<close> act on the link itself (\<^verbatim>\<open>os.path.lexists\<close> is true). \<open>denied\<close> holds
  the paths on which the operating system refuses \<^verbatim>\<open>rename\<close> and \<^verbatim>\<open>unlink\<close>
  (permissions). \<^verbatim>\<open>os.rename\<close> and \<^verbatim>\<open>os.unlink\<close> raise \<^verbatim>\<open>OSError\<close> on a path with no
  entry or a refused one; a POSIX rename replaces an existing destination, and does
  nothing when source and destination are the same entry.
\<close>

datatype error = ValueError | OSError | ExtractionError

record fsys =
  present :: "string fset"
  dangling :: "string fset"
  denied :: "string fset"

definition os_path_exists :: "fsys \<Rightarrow> string \<Rightarrow> bool" where
  "os_path_exists f p = (p |\<in>| present f)"

definition os_path_lexists :: "fsys \<Rightarrow> string \<Rightarrow> bool" where
  "os_path_lexists f p = (p |\<in>| present f \<or> p |\<in>| dangling f)"

definition os_rename :: "string \<Rightarrow> string \<Rightarrow> fsys \<Rightarrow> error + fsys" where
  "os_rename src dst f =
     (if \<not> os_path_lexists f src \<or> src |\<in>| denied f \<or> dst |\<in>| denied f then Inl OSError
      else if src = dst then Inr f
      else if src |\<in>| present f
      then Inr (f\<lparr>present := finsert dst (present f |-| {|src|}),
                  dangling := dangling f |-| {|dst|} |-| {|src|}\<rparr>)
      else Inr (f\<lparr>present := present f |-| {|dst|},
                  dangling := finsert dst (dangling f |-| {|src|})\<rparr>))"

definition os_unlink :: "string \<Rightarrow> fsys \<Rightarrow> error + fsys" where
  "os_unlink p f =
     (if \<not> os_path_lexists f p \<or> p |\<in>| denied f then Inl OSError
      else Inr (f\<lparr>present := present f |-| {|p|}, dangling := dangling f |-| {|p|}\<rparr>))"

text \<open>
  The settings and the collaborator that are not part of the module: the storage root
  (\<^verbatim>\<open>storage.location\<close>), the URL prefix, and \<^verbatim>\<open>extract_frame\<close> of
  \<^verbatim>\<open>video.convertvideo\<close>, which is taken as a parameter: given the video path and the
  destination it either raises (\<open>Some\<close> of the exception) or returns (\<open>None\<close>), and leaves
  a filesystem behind. The module calls it as a statement (line 36), so the value it
  returns, whatever it reports, is not part of the model: nothing reads it.
\<close>

record env =
  location :: string
  base_url :: string
  extract_frame :: "string \<Rightarrow> string \<Rightarrow> fsys \<Rightarrow> error option \<times> fsys"

text \<open>
  A \<^verbatim>\<open>GlossVideo\<close> object in memory, its row in the database (\<open>None\<close> when there is
  none), and the calls made so far to the filesystem, to the frame extractor and to the
  persistence layer, in order; a call is recorded whether it succeeds or raises.
  \<^verbatim>\<open>self.save()\<close> and \<^verbatim>\<open>self.delete()\<close> belong to the framework and are taken to
  succeed: the first writes the object to its row, the second removes the row.
\<close>

record glossvideo =
  videofile_name :: string
  gloss_id :: string
  version :: int

datatype event =
  Rename string string | Unlink string | Extract string string | Save | Delete

record world =
  fs :: fsys
  self :: glossvideo
  row :: "glossvideo option"
  calls :: "event list"

text \<open>
  \<^verbatim>\<open>self.videofile.path\<close> and \<^verbatim>\<open>self.videofile.url\<close> are computed by the framework from
  the name. They are modelled for the names the storage produces: non-empty, relative,
  normalised, staying under the root, and made of characters a URL does not quote. For
  those the path is the name joined to the root, as in line 138, and the URL is the name
  behind the prefix; the framework's refusal of other names is not modelled.
\<close>

definition videofile_path :: "env \<Rightarrow> world \<Rightarrow> string" where
  \<comment> \<open>\<^verbatim>\<open>self.videofile.path\<close>: the name under the storage root.\<close>
  "videofile_path E w = os_path_join (location E) (videofile_name (self w))"

definition videofile_url :: "env \<Rightarrow> world \<Rightarrow> string" where
  \<comment> \<open>\<^verbatim>\<open>self.videofile.url\<close>: the name behind the URL prefix.\<close>
  "videofile_url E w = base_url E @ videofile_name (self w)"

definition rename_call :: "string \<Rightarrow> string \<Rightarrow> world \<Rightarrow> error option \<times> world" where
  "rename_call src dst w =
     (case os_rename src dst (fs w) of
        Inl e \<Rightarrow> (Some e, w\<lparr>calls := calls w @ [Rename src dst]\<rparr>)
      | Inr f \<Rightarrow> (None, w\<lparr>fs := f, calls := calls w @ [Rename src dst]\<rparr>))"

definition unlink_call :: "string \<Rightarrow> world \<Rightarrow> error option \<times> world" where
  "unlink_call p w =
     (case os_unlink p (fs w) of
        Inl e \<Rightarrow> (Some e, w\<lparr>calls := calls w @ [Unlink p]\<rparr>)
      | Inr f \<Rightarrow> (None, w\<lparr>fs := f, calls := calls w @ [Unlink p]\<rparr>))"

definition save :: "world \<Rightarrow> world" where
  "save w = w\<lparr>row := Some (self w), calls := calls w @ [Save]\<rparr>"

definition delete :: "world \<Rightarrow> world" where
  "delete w = w\<lparr>row := None, calls := calls w @ [Delete]\<rparr>"

section \<open>VideoPosterMixin\<close>

definition poster_path :: "env \<Rightarrow> bool \<Rightarrow> world \<Rightarrow> (error + string option) \<times> world" where
  \<comment> \<open>\<^verbatim>\<open>vidpath, ext = os.path.splitext(self.videofile.path)
      poster_path = vidpath + ".jpg"
      if not os.path.exists(poster_path):
          if create: extract_frame(self.videofile.path, poster_path)
          else: return None
      return poster_path\<close>\<close>
  "poster_path E create w =
     (let (vidpath, ext) = os_path_splitext (videofile_path E w);
          poster_path = vidpath @ ''.jpg''
      in if \<not> os_path_exists (fs w) poster_path then
           (if create then
              (case extract_frame E (videofile_path E w) poster_path (fs w) of
                 (Some e, f) \<Rightarrow>
                   (Inl e, w\<lparr>fs := f, calls := calls w @ [Extract (videofile_path E w) poster_path]\<rparr>)
               | (None, f) \<Rightarrow>
                   (Inr (Some poster_path),
                    w\<lparr>fs := f, calls := calls w @ [Extract (videofile_path E w) poster_path]\<rparr>))
            else (Inr None, w))
         else (Inr (Some poster_path), w))"

definition poster_url :: "env \<Rightarrow> world \<Rightarrow> (error + string) \<times> world" where
  \<comment> \<open>\<^verbatim>\<open>path = self.poster_path()
      vidurl, ext = os.path.splitext(self.videofile.url)
      poster_url = vidurl + ".jpg"\<close>\<close>
  "poster_url E w =
     (case poster_path E True w of
        (Inl e, w1) \<Rightarrow> (Inl e, w1)
      | (Inr path, w1) \<Rightarrow>
          (let (vidurl, ext) = os_path_splitext (videofile_url E w1);
               poster_url = vidurl @ ''.jpg''
           in (Inr poster_url, w1)))"

definition delete_files :: "env \<Rightarrow> world \<Rightarrow> world" where
  \<comment> \<open>\<^verbatim>\<open>try:
          os.unlink(self.videofile.path)
          poster_path = self.poster_path(create=False)
          if poster_path: os.unlink(poster_path)
      except: pass\<close>\<close>
  "delete_files E w =
     (case unlink_call (videofile_path E w) w of
        (Some e, w1) \<Rightarrow> w1
      | (None, w1) \<Rightarrow>
          (case poster_path E False w1 of
             (Inl e, w2) \<Rightarrow> w2
           | (Inr None, w2) \<Rightarrow> w2
           | (Inr (Some p), w2) \<Rightarrow>
               (if p \<noteq> [] then snd (unlink_call p w2) else w2)))"

section \<open>GlossVideo.reversion\<close>

text \<open>
  The loop that looks for an unused backup name; \<open>vers\<close> (the field \<^verbatim>\<open>self.version\<close>)
  and \<open>newname\<close> are its two variables. It ends because the filesystem is finite and every candidate is longer than
  the one before.
\<close>

function backup_name :: "env \<Rightarrow> fsys \<Rightarrow> int \<Rightarrow> string \<Rightarrow> int \<times> string" where
  "backup_name E f vers newname =
     (if os_path_exists f (os_path_join (location E) newname)
      then backup_name E f (vers + 1) (newname @ ''.bak'')
      else (vers, newname))"
  by pat_completeness auto

termination backup_name
proof (relation "measure (\<lambda>(E, f, vers, newname).
         fcard (ffilter (\<lambda>p. length (os_path_join (location E) newname) \<le> length p) (present f)))")
  show "wf (measure (\<lambda>(E, f, vers, newname).
         fcard (ffilter (\<lambda>p. length (os_path_join (location E) newname) \<le> length p) (present f))))"
    by simp
next
  fix E :: env and f :: fsys and vers :: int and newname :: string
  assume ex: "os_path_exists f (os_path_join (location E) newname)"
  let ?c = "os_path_join (location E) newname"
  let ?A = "ffilter (\<lambda>p. length ?c \<le> length p) (present f)"
  let ?B = "ffilter (\<lambda>p. length (?c @ ''.bak'') \<le> length p) (present f)"
  have longer: "os_path_join (location E) (newname @ ''.bak'') = ?c @ ''.bak''"
    by (cases newname) (auto simp: os_path_join_def startswith_def)
  have "?c |\<in>| ?A" using ex by (simp add: os_path_exists_def)
  moreover have "?c |\<notin>| ?B" by simp
  moreover have "?B |\<subseteq>| ?A" by auto
  ultimately have "?B |\<subset>| ?A" by blast
  then have "fcard ?B < fcard ?A" by (rule pfsubset_fcard_mono)
  then show "((E, f, vers + 1, newname @ ''.bak''), (E, f, vers, newname))
        \<in> measure (\<lambda>(E, f, vers, newname).
         fcard (ffilter (\<lambda>p. length (os_path_join (location E) newname) \<le> length p) (present f)))"
    by (simp add: longer)
qed

declare backup_name.simps [simp del]

text \<open>
  Lines 137 to 145, common to both directions: rename the file, unlink the poster of the
  old name when there is one, store the new name and save. An exception of any step ends
  the method there, with the object as it is at that point.
\<close>

definition rename_and_save :: "env \<Rightarrow> string \<Rightarrow> world \<Rightarrow> error option \<times> world" where
  \<comment> \<open>\<^verbatim>\<open>os.rename(os.path.join(storage.location, self.videofile.name),
                os.path.join(storage.location, newname))
      poster = self.poster_path(create=False)
      if poster != None: os.unlink(poster)
      self.videofile.name = newname
      self.save()\<close>\<close>
  "rename_and_save E newname w =
     (case rename_call (os_path_join (location E) (videofile_name (self w)))
                       (os_path_join (location E) newname) w of
        (Some e, w1) \<Rightarrow> (Some e, w1)
      | (None, w1) \<Rightarrow>
          (case poster_path E False w1 of
             (Inl e, w2) \<Rightarrow> (Some e, w2)
           | (Inr poster, w2) \<Rightarrow>
               (case (case poster of None \<Rightarrow> (None, w2) | Some p \<Rightarrow> unlink_call p w2) of
                  (Some e, w3) \<Rightarrow> (Some e, w3)
                | (None, w3) \<Rightarrow>
                    (None, save (w3\<lparr>self := (self w3)\<lparr>videofile_name := newname\<rparr>\<rparr>)))))"

definition reversion :: "env \<Rightarrow> bool \<Rightarrow> world \<Rightarrow> error option \<times> world" where
  \<comment> \<open>\<^verbatim>\<open>if revert:
          if self.version==0:
              self.delete_files(); self.delete(); return
          else:
              (newname, bak) = os.path.splitext(self.videofile.name)
              if bak != '.bak': raise ValueError()
              self.version -= 1
      else:
          newname = self.videofile.name
          while os.path.exists(os.path.join(storage.location, newname)):
              self.version += 1
              newname = newname + ".bak"
      (lines 137 to 145)\<close>\<close>
  "reversion E revert w =
     (if revert then
        (if version (self w) = 0 then (None, delete (delete_files E w))
         else
           (let (newname, bak) = os_path_splitext (videofile_name (self w))
            in if bak \<noteq> ''.bak'' then (Some ValueError, w)
               else rename_and_save E newname
                      (w\<lparr>self := (self w)\<lparr>version := version (self w) - 1\<rparr>\<rparr>)))
      else
        (let (vers, newname) = backup_name E (fs w) (version (self w)) (videofile_name (self w))
         in rename_and_save E newname (w\<lparr>self := (self w)\<lparr>version := vers\<rparr>\<rparr>)))"

text \<open>The suffix that \<open>k\<close> rounds of the loop append: \<open>k\<close> times \<^verbatim>\<open>.bak\<close>.\<close>

definition baks :: "nat \<Rightarrow> string" where
  "baks k = concat (replicate k ''.bak'')"

section \<open>A concrete installation, for evaluation\<close>

definition media :: env where
  \<comment> \<open>Storage under \<^verbatim>\<open>/media\<close>; the extractor writes the destination and returns.\<close>
  "media = \<lparr>location = ''/media'', base_url = ''/media/'',
             extract_frame = (\<lambda>src dst f. (None, f\<lparr>present := finsert dst (present f)\<rparr>))\<rparr>"

definition silent_tool :: env where
  \<comment> \<open>The same installation with an extractor that fails without raising: it writes
      nothing and returns.\<close>
  "silent_tool = media\<lparr>extract_frame := (\<lambda>src dst f. (None, f))\<rparr>"

definition broken_tool :: env where
  \<comment> \<open>The same installation with an extractor that raises and writes nothing.\<close>
  "broken_tool = media\<lparr>extract_frame := (\<lambda>src dst f. (Some ExtractionError, f))\<rparr>"

definition clips :: env where
  \<comment> \<open>The same with the videos under the relative directory \<^verbatim>\<open>a/b\<close>.\<close>
  "clips = media\<lparr>location := ''a/b'', base_url := ''/v/''\<rparr>"

definition video :: "string \<Rightarrow> int \<Rightarrow> glossvideo" where
  "video n v = \<lparr>videofile_name = n, gloss_id = ''7'', version = v\<rparr>"

definition disk :: "string list \<Rightarrow> fsys" where
  "disk ps = \<lparr>present = fset_of_list ps, dangling = {||}, denied = {||}\<rparr>"

definition stored :: "string list \<Rightarrow> string \<Rightarrow> int \<Rightarrow> world" where
  \<comment> \<open>A saved record with the given name and version, on a disk holding the listed paths.\<close>
  "stored ps n v = \<lparr>fs = disk ps, self = video n v, row = Some (video n v), calls = []\<rparr>"

definition locked :: "string list \<Rightarrow> string \<Rightarrow> int \<Rightarrow> world" where
  \<comment> \<open>The same record on a disk whose files may be neither renamed nor unlinked.\<close>
  "locked ps n v = (stored ps n v)\<lparr>fs := (disk ps)\<lparr>denied := fset_of_list ps\<rparr>\<rparr>"

definition linked :: "string list \<Rightarrow> string \<Rightarrow> int \<Rightarrow> world" where
  \<comment> \<open>The same record on a disk that holds only dangling symbolic links, at the listed
      paths.\<close>
  "linked ps n v = (stored [] n v)\<lparr>fs := (disk [])\<lparr>dangling := fset_of_list ps\<rparr>\<rparr>"

section \<open>Facts about the path primitives\<close>

lemma rfind_from_absent: "c \<notin> set xs \<Longrightarrow> rfind_from c xs i found = found"
  by (induction xs arbitrary: i found) auto

lemma rfind_from_last:
  "c \<notin> set b \<Longrightarrow> rfind_from c (a @ c # b) i found = i + int (length a)"
  by (induction a arbitrary: i found) (auto simp: rfind_from_absent)

lemma rfind_absent: "c \<notin> set p \<Longrightarrow> rfind p c = - 1"
  by (simp add: rfind_def rfind_from_absent)

lemma rfind_last: "c \<notin> set b \<Longrightarrow> rfind (a @ c # b) c = int (length a)"
  by (simp add: rfind_def rfind_from_last)



lemma os_path_split_plain: "CHR ''/'' \<notin> set p \<Longrightarrow> os_path_split p = ([], p)"
  by (simp add: os_path_split_def rfind_absent)

lemma os_path_split_sep:
  assumes "CHR ''/'' \<notin> set b"
  shows "os_path_split (a @ CHR ''/'' # b) =
           (if a @ ''/'' = replicate (Suc (length a)) CHR ''/'' then a @ ''/''
            else rstrip CHR ''/'' (a @ ''/''), b)"
  using assms by (simp add: os_path_split_def rfind_last Let_def nat_add_distrib)

lemma os_path_split_shape:
  "\<exists>h. p = h @ snd (os_path_split p) \<and> (h = [] \<or> last h = CHR ''/'') \<and>
       fst (os_path_split p) =
         (if h = replicate (length h) CHR ''/'' then h else rstrip CHR ''/'' h)"
proof (cases "CHR ''/'' \<in> set p")
  case False
  then show ?thesis by (simp add: os_path_split_plain)
next
  case True
  then obtain a b where p: "p = a @ CHR ''/'' # b" "CHR ''/'' \<notin> set b"
    using split_list_last by fastforce
  show ?thesis
    by (rule exI [of _ "a @ ''/''"]) (simp add: p os_path_split_sep)
qed

lemma os_path_split_tail: "CHR ''/'' \<notin> set (snd (os_path_split p))"
proof (cases "CHR ''/'' \<in> set p")
  case False
  then show ?thesis by (simp add: os_path_split_plain)
next
  case True
  then obtain a b where p: "p = a @ CHR ''/'' # b" "CHR ''/'' \<notin> set b"
    using split_list_last by fastforce
  then show ?thesis by (simp add: os_path_split_sep)
qed

lemma join_prefix:
  assumes "CHR ''/'' \<notin> set b"
  shows "os_path_join (take 2 b) b = (if b = [] then [] else take 2 b @ ''/'' @ b)"
proof (cases b)
  case Nil
  then show ?thesis by (simp add: os_path_join_def startswith_def)
next
  case (Cons x xs)
  with assms have "x \<noteq> CHR ''/''" "CHR ''/'' \<notin> set (take 2 b)"
    by (auto dest: in_set_takeD)
  moreover from Cons have "take 2 b \<noteq> []" by simp
  ultimately have "\<not> endswith (take 2 b) CHR ''/''"
    by (cases "rev (take 2 b)") (auto simp: endswith_def dest: arg_cong [where f = set])
  with Cons \<open>x \<noteq> CHR ''/''\<close> \<open>take 2 b \<noteq> []\<close> show ?thesis
    by (simp add: os_path_join_def startswith_def)
qed

lemma endswith_last: "endswith s c \<longleftrightarrow> s \<noteq> [] \<and> last s = c"
  by (cases s rule: rev_cases) (simp_all add: endswith_def)

lemma join_relative:
  "\<not> startswith b CHR ''/'' \<Longrightarrow>
   os_path_join a b = (if a = [] \<or> last a = CHR ''/'' then a else a @ ''/'') @ b"
  by (auto simp: os_path_join_def endswith_last)

section \<open>The path naming scheme\<close>

text \<open>
  Claim C9. \<^verbatim>\<open>get_valid_name\<close> is a function of the name alone. It splits the name into
  the directory \<open>d\<close> and the basename \<open>b\<close> (the part after the last slash, the
  directory being what is before it without its trailing slashes), takes as prefix the
  first two characters of the basename, which is the whole basename when that is shorter,
  and returns the directory joined with the prefix joined with the basename: written out,
  the directory, a slash unless the directory is empty or ends with one, and then
  \<open>prefix/basename\<close> (nothing for an empty basename).
\<close>

theorem get_valid_name_partition:
  "(let d = fst (os_path_split name); b = snd (os_path_split name); prefix = take 2 b
    in CHR ''/'' \<notin> set b
     \<and> (\<exists>h. name = h @ b \<and> (h = [] \<or> last h = CHR ''/'') \<and>
            d = (if h = replicate (length h) CHR ''/'' then h else rstrip CHR ''/'' h))
     \<and> (length b < 2 \<longrightarrow> prefix = b)
     \<and> get_valid_name name = os_path_join d (os_path_join prefix b)
     \<and> get_valid_name name =
         (if d = [] \<or> last d = CHR ''/'' then d else d @ ''/'')
         @ (if b = [] then [] else prefix @ ''/'' @ b))"
proof -
  define d where "d = fst (os_path_split name)"
  define b where "b = snd (os_path_split name)"
  have nosep: "CHR ''/'' \<notin> set b"
    unfolding b_def by (rule os_path_split_tail)
  have shape: "\<exists>h. name = h @ b \<and> (h = [] \<or> last h = CHR ''/'') \<and>
            d = (if h = replicate (length h) CHR ''/'' then h else rstrip CHR ''/'' h)"
    unfolding b_def d_def by (rule os_path_split_shape)
  have code: "get_valid_name name = os_path_join d (os_path_join (take 2 b) b)"
    by (simp add: get_valid_name_def d_def b_def split_beta)
  have inner: "os_path_join (take 2 b) b = (if b = [] then [] else take 2 b @ ''/'' @ b)"
    using nosep by (rule join_prefix)
  have "\<not> startswith (os_path_join (take 2 b) b) CHR ''/''"
    using nosep unfolding inner by (cases b) (auto simp: startswith_def)
  then have explicit: "get_valid_name name =
         (if d = [] \<or> last d = CHR ''/'' then d else d @ ''/'')
         @ (if b = [] then [] else take 2 b @ ''/'' @ b)"
    unfolding code by (simp add: join_relative inner)
  show ?thesis
    using nosep shape code explicit
    unfolding Let_def d_def [symmetric] b_def [symmetric] by simp
qed

lemmas path_defs = get_valid_name_def os_path_split_def os_path_join_def rfind_def rstrip_def
  startswith_def endswith_def

theorem get_valid_name_partition_witness:
  "length ''x'' < 2 \<and> get_valid_name ''clips/x'' = ''clips/x/x''
   \<and> get_valid_name ''glossvideo/12345.mp4'' = ''glossvideo/12/12345.mp4''"
  using get_valid_name_partition [of "''clips/x''"]
  by (simp add: path_defs)

lemma splitext_append: "fst (os_path_splitext p) @ snd (os_path_splitext p) = p"
  by (simp add: os_path_splitext_def Let_def)





section \<open>Poster derivation\<close>


lemma poster_path_row [simp]: "row (snd (poster_path E create w)) = row w"
  by (simp add: poster_path_def split_beta Let_def split: option.splits)




lemmas eval_defs = reversion_def rename_and_save_def rename_call_def unlink_call_def save_def
  delete_def delete_files_def poster_path_def poster_url_def videofile_path_def
  videofile_url_def os_rename_def os_unlink_def os_path_exists_def os_path_lexists_def
  os_path_join_def
  os_path_splitext_def startswith_def endswith_def rfind_def skip_dots.simps backup_name.simps
  media_def broken_tool_def silent_tool_def clips_def video_def disk_def stored_def Let_def



text \<open>
  Claim C7 says that a failing extraction is surfaced rather than the poster path being
  returned as if the poster existed. \<^verbatim>\<open>poster_path\<close> calls \<^verbatim>\<open>extract_frame\<close> as a
  statement (line 36) and returns the path (line 39) without looking at the disk again:
  with an extractor that fails without raising, the path of a poster that does not exist
  is returned.
\<close>

theorem poster_path_silent_failure_counterexample:
  "fst (poster_path silent_tool True (stored [''/media/x.mp4''] ''x.mp4'' 0))
     = Inr (Some ''/media/x.jpg'')
   \<and> \<not> os_path_exists (fs (snd (poster_path silent_tool True (stored [''/media/x.mp4''] ''x.mp4'' 0))))
          ''/media/x.jpg''"
  by (simp add: eval_defs)

text \<open>
  Claim C7, amended. \<^verbatim>\<open>poster_path\<close> with \<^verbatim>\<open>create=True\<close>: when the poster file exists it
  returns its path and calls nothing (the world, with its record of calls, is unchanged).
  When the file does not exist it calls \<^verbatim>\<open>extract_frame\<close> once with the video path and
  the poster path, and the filesystem is the one the extractor leaves. An exception of
  the extractor is the outcome of \<^verbatim>\<open>poster_path\<close>, which then returns no path. When the
  extractor returns, the poster path is returned with no further check, whether or not
  the poster file was produced.
\<close>

theorem poster_path_create_unchecked:
  "(let video = videofile_path E w;
        poster = fst (os_path_splitext video) @ ''.jpg''
    in (os_path_exists (fs w) poster \<longrightarrow> poster_path E True w = (Inr (Some poster), w))
     \<and> (\<not> os_path_exists (fs w) poster \<longrightarrow>
          calls (snd (poster_path E True w)) = calls w @ [Extract video poster]
        \<and> fs (snd (poster_path E True w)) = snd (extract_frame E video poster (fs w))
        \<and> (\<forall>err. fst (extract_frame E video poster (fs w)) = Some err \<longrightarrow>
              fst (poster_path E True w) = Inl err)
        \<and> (fst (extract_frame E video poster (fs w)) = None \<longrightarrow>
              fst (poster_path E True w) = Inr (Some poster))))"
  by (auto simp: poster_path_def Let_def split_beta split: option.splits prod.splits)

theorem poster_path_create_unchecked_witness:
  "\<not> os_path_exists (fs (stored [''/media/x.mp4''] ''x.mp4'' 0)) ''/media/x.jpg''
   \<and> fst (extract_frame broken_tool ''/media/x.mp4'' ''/media/x.jpg''
            (fs (stored [''/media/x.mp4''] ''x.mp4'' 0))) = Some ExtractionError
   \<and> fst (poster_path broken_tool True (stored [''/media/x.mp4''] ''x.mp4'' 0)) = Inl ExtractionError
   \<and> calls (snd (poster_path broken_tool True (stored [''/media/x.mp4''] ''x.mp4'' 0)))
       = [Extract ''/media/x.mp4'' ''/media/x.jpg'']
   \<and> fst (extract_frame silent_tool ''/media/x.mp4'' ''/media/x.jpg''
            (fs (stored [''/media/x.mp4''] ''x.mp4'' 0))) = None
   \<and> fst (poster_path silent_tool True (stored [''/media/x.mp4''] ''x.mp4'' 0))
       = Inr (Some ''/media/x.jpg'')
   \<and> fs (snd (poster_path silent_tool True (stored [''/media/x.mp4''] ''x.mp4'' 0)))
       = fs (stored [''/media/x.mp4''] ''x.mp4'' 0)
   \<and> os_path_exists (fs (stored [''/media/x.mp4'', ''/media/x.jpg''] ''x.mp4'' 0)) ''/media/x.jpg''
   \<and> poster_path broken_tool True (stored [''/media/x.mp4'', ''/media/x.jpg''] ''x.mp4'' 0)
       = (Inr (Some ''/media/x.jpg''), stored [''/media/x.mp4'', ''/media/x.jpg''] ''x.mp4'' 0)"
  using poster_path_create_unchecked [of broken_tool "stored [''/media/x.mp4''] ''x.mp4'' 0"]
    poster_path_create_unchecked [of silent_tool "stored [''/media/x.mp4''] ''x.mp4'' 0"]
    poster_path_create_unchecked [of broken_tool "stored [''/media/x.mp4'', ''/media/x.jpg''] ''x.mp4'' 0"]
  by (simp add: eval_defs)

text \<open>
  Claim C6 says that \<^verbatim>\<open>poster_url\<close> never triggers poster generation. The method begins
  with \<^verbatim>\<open>path = self.poster_path()\<close>, whose default is \<^verbatim>\<open>create=True\<close>: for a video
  without a poster file the extractor is called.
\<close>

theorem poster_url_extracts_counterexample:
  "calls (snd (poster_url media (stored [''/media/x.mp4''] ''x.mp4'' 0)))
     = [Extract ''/media/x.mp4'' ''/media/x.jpg'']"
  by (simp add: eval_defs)

text \<open>
  Claim C6, amended. \<^verbatim>\<open>poster_url\<close> derives the poster URL from the video URL by the
  extension swap of \<^verbatim>\<open>poster_path\<close>, after a call of \<^verbatim>\<open>poster_path\<close> with
  \<^verbatim>\<open>create=True\<close>: when the poster file exists it calls nothing and returns the URL;
  when the file does not exist it calls \<^verbatim>\<open>extract_frame\<close> once, an exception of the
  extractor is the outcome, and otherwise the URL is returned.
\<close>

theorem poster_url_generates_on_miss:
  "(let video = videofile_path E w;
        poster = fst (os_path_splitext video) @ ''.jpg'';
        url = fst (os_path_splitext (videofile_url E w)) @ ''.jpg''
    in (os_path_exists (fs w) poster \<longrightarrow> poster_url E w = (Inr url, w))
     \<and> (\<not> os_path_exists (fs w) poster \<longrightarrow>
          calls (snd (poster_url E w)) = calls w @ [Extract video poster]
        \<and> (\<forall>err. fst (extract_frame E video poster (fs w)) = Some err \<longrightarrow>
              fst (poster_url E w) = Inl err)
        \<and> (fst (extract_frame E video poster (fs w)) = None \<longrightarrow>
              fst (poster_url E w) = Inr url)))"
  by (auto simp: poster_url_def poster_path_def videofile_url_def Let_def split_beta
           split: option.splits prod.splits)

theorem poster_url_generates_on_miss_witness:
  "os_path_exists (fs (stored [''/media/x.mp4'', ''/media/x.jpg''] ''x.mp4'' 0)) ''/media/x.jpg''
   \<and> poster_url media (stored [''/media/x.mp4'', ''/media/x.jpg''] ''x.mp4'' 0)
       = (Inr ''/media/x.jpg'', stored [''/media/x.mp4'', ''/media/x.jpg''] ''x.mp4'' 0)
   \<and> \<not> os_path_exists (fs (stored [''/media/x.mp4''] ''x.mp4'' 0)) ''/media/x.jpg''
   \<and> fst (poster_url media (stored [''/media/x.mp4''] ''x.mp4'' 0)) = Inr ''/media/x.jpg''
   \<and> fst (poster_url broken_tool (stored [''/media/x.mp4''] ''x.mp4'' 0)) = Inl ExtractionError"
  using poster_url_generates_on_miss [of media "stored [''/media/x.mp4'', ''/media/x.jpg''] ''x.mp4'' 0"]
    poster_url_generates_on_miss [of media "stored [''/media/x.mp4''] ''x.mp4'' 0"]
    poster_url_generates_on_miss [of broken_tool "stored [''/media/x.mp4''] ''x.mp4'' 0"]
  by (simp add: eval_defs)

section \<open>The version chain\<close>

lemma splitext_bak_suffix:
  "snd (os_path_splitext n) = ''.bak'' \<Longrightarrow> suffix ''.bak'' n"
  using splitext_append [of n] by (metis suffixI)

text \<open>
  Claim C3. A record whose version is not zero (in particular every version above zero)
  and whose filename does not end with \<^verbatim>\<open>.bak\<close>: \<^verbatim>\<open>reversion(revert=True)\<close> raises
  \<^verbatim>\<open>ValueError\<close>, the exception the module uses for a corrupted chain, and nothing else
  happens: the filesystem, the object, its row and the record of calls are as before, so
  there is no rename, no unlink and no save.
\<close>

theorem revert_corrupted_chain:
  assumes "version (self w) \<noteq> 0" and "\<not> suffix ''.bak'' (videofile_name (self w))"
  shows "reversion E True w = (Some ValueError, w)"
proof -
  from assms(2) have "snd (os_path_splitext (videofile_name (self w))) \<noteq> ''.bak''"
    using splitext_bak_suffix by blast
  with assms(1) show ?thesis
    by (simp add: reversion_def split_beta)
qed

theorem revert_corrupted_chain_witness:
  "version (self (stored [''/media/x.mp4''] ''x.mp4'' 2)) \<noteq> 0
   \<and> \<not> suffix ''.bak'' (videofile_name (self (stored [''/media/x.mp4''] ''x.mp4'' 2)))
   \<and> reversion media True (stored [''/media/x.mp4''] ''x.mp4'' 2)
       = (Some ValueError, stored [''/media/x.mp4''] ''x.mp4'' 2)"
proof -
  have v: "version (self (stored [''/media/x.mp4''] ''x.mp4'' 2)) \<noteq> 0"
    by (simp add: stored_def video_def)
  have s: "\<not> suffix ''.bak'' (videofile_name (self (stored [''/media/x.mp4''] ''x.mp4'' 2)))"
    by (simp add: stored_def video_def suffix_to_prefix)
  show ?thesis using v s revert_corrupted_chain [OF v s, of media] by simp
qed

text \<open>
  Claim C5 (terminal revert removes the video and its poster, tolerating the absence of
  either). \<^verbatim>\<open>delete_files\<close> unlinks both files inside one \<^verbatim>\<open>try\<close>: when the video file
  is already gone the first unlink raises, the handler passes, and the poster is never
  looked at. Evaluated for a version 0 record \<^verbatim>\<open>x.mp4\<close> of which only the poster
  \<^verbatim>\<open>/media/x.jpg\<close> is on disk: no exception, the row is deleted, the only calls are the
  failed unlink of the video and the delete, and the poster is still there.
\<close>

theorem terminal_revert_leaves_poster:
  "reversion media True (stored [''/media/x.jpg''] ''x.mp4'' 0)
     = (None, \<lparr>fs = disk [''/media/x.jpg''], self = video ''x.mp4'' 0, row = None,
               calls = [Unlink ''/media/x.mp4'', Delete]\<rparr>)"
  by (simp add: eval_defs)

lemma baks_0 [simp]: "baks 0 = []"
  by (simp add: baks_def)

lemma baks_Suc: "baks (Suc k) = ''.bak'' @ baks k"
  by (simp add: baks_def)

lemma backup_name_result:
  "\<exists>k. backup_name E f v n = (v + int k, n @ baks k)
     \<and> (\<forall>j<k. os_path_exists f (os_path_join (location E) (n @ baks j)))
     \<and> \<not> os_path_exists f (os_path_join (location E) (n @ baks k))"
proof (induction E f v n rule: backup_name.induct)
  case (1 E f v n)
  show ?case
  proof (cases "os_path_exists f (os_path_join (location E) n)")
    case False
    then have "backup_name E f v n = (v, n)" by (subst backup_name.simps) simp
    with False show ?thesis by (intro exI [of _ 0]) simp
  next
    case True
    then have unfold: "backup_name E f v n = backup_name E f (v + 1) (n @ ''.bak'')"
      by (subst backup_name.simps) simp
    from 1 [OF True] obtain k where k:
      "backup_name E f (v + 1) (n @ ''.bak'') = (v + 1 + int k, (n @ ''.bak'') @ baks k)"
      "\<forall>j<k. os_path_exists f (os_path_join (location E) ((n @ ''.bak'') @ baks j))"
      "\<not> os_path_exists f (os_path_join (location E) ((n @ ''.bak'') @ baks k))"
      by blast
    have "backup_name E f v n = (v + int (Suc k), n @ baks (Suc k))"
      using unfold k(1) by (simp add: baks_Suc)
    moreover have "os_path_exists f (os_path_join (location E) (n @ baks j))" if "j < Suc k" for j
    proof (cases j)
      case 0
      with True show ?thesis by simp
    next
      case (Suc i)
      with that k(2) show ?thesis by (simp add: baks_Suc)
    qed
    moreover have "\<not> os_path_exists f (os_path_join (location E) (n @ baks (Suc k)))"
      using k(3) by (simp add: baks_Suc)
    ultimately show ?thesis by blast
  qed
qed

lemma rename_and_save_fail:
  assumes "os_rename (os_path_join (location E) (videofile_name (self w)))
             (os_path_join (location E) newname) (fs w) = Inl e"
  shows "rename_and_save E newname w =
     (Some e, w\<lparr>calls := calls w @ [Rename (os_path_join (location E) (videofile_name (self w)))
                                         (os_path_join (location E) newname)]\<rparr>)"
  using assms by (simp add: rename_and_save_def rename_call_def)

lemma os_rename_free:
  assumes "os_path_lexists f src" "denied f = {||}"
  shows "\<exists>g. os_rename src dst f = Inr g \<and> denied g = {||}
           \<and> (os_path_exists f src \<longrightarrow> present g = finsert dst (present f |-| {|src|}))"
proof (cases "src = dst")
  case True
  have "present f = finsert dst (present f |-| {|dst|})" if "dst |\<in>| present f"
    using that by auto
  with assms True show ?thesis
    by (simp add: os_rename_def os_path_exists_def)
next
  case False
  with assms show ?thesis
    by (simp add: os_rename_def os_path_exists_def)
qed

lemma os_rename_Inr_lexists: "os_rename src dst f = Inr g \<Longrightarrow> os_path_lexists f src"
  by (simp add: os_rename_def split: if_splits)

lemma os_unlink_free:
  assumes "os_path_exists f p" "denied f = {||}"
  shows "\<exists>g. os_unlink p f = Inr g \<and> denied g = {||} \<and> present g = present f |-| {|p|}"
  using assms by (simp add: os_unlink_def os_path_exists_def os_path_lexists_def)

lemma rename_and_save_None:
  assumes "rename_and_save E newname w = (None, w')"
  shows "os_path_lexists (fs w) (os_path_join (location E) (videofile_name (self w)))
       \<and> self w' = (self w)\<lparr>videofile_name := newname\<rparr> \<and> row w' = Some (self w')"
proof -
  let ?src = "os_path_join (location E) (videofile_name (self w))"
  let ?dst = "os_path_join (location E) newname"
  obtain g where g: "os_rename ?src ?dst (fs w) = Inr g"
    using assms by (cases "os_rename ?src ?dst (fs w)") (simp_all add: rename_and_save_def rename_call_def)
  then have "os_path_lexists (fs w) ?src" by (rule os_rename_Inr_lexists)
  moreover have "self w' = (self w)\<lparr>videofile_name := newname\<rparr> \<and> row w' = Some (self w')"
    using assms g
    by (auto simp: rename_and_save_def rename_call_def poster_path_def unlink_call_def save_def
          Let_def split_beta split: sum.splits option.splits if_splits prod.splits)
  ultimately show ?thesis by simp
qed

lemma rename_and_save_ok:
  fixes E w newname
  defines "src \<equiv> os_path_join (location E) (videofile_name (self w))"
    and "dst \<equiv> os_path_join (location E) newname"
  defines "poster \<equiv> fst (os_path_splitext src) @ ''.jpg''"
  assumes there: "os_path_lexists (fs w) src" and free: "denied (fs w) = {||}"
  shows "\<exists>w'. rename_and_save E newname w = (None, w')
     \<and> self w' = (self w)\<lparr>videofile_name := newname\<rparr> \<and> row w' = Some (self w')
     \<and> denied (fs w') = {||}
     \<and> (os_path_exists (fs w) src \<longrightarrow>
          present (fs w') = finsert dst (present (fs w) |-| {|src|}) |-| {|poster|})
     \<and> (\<exists>cs. calls w' = calls w @ Rename src dst # cs)"
proof -
  obtain g where g: "os_rename src dst (fs w) = Inr g" "denied g = {||}"
    "os_path_exists (fs w) src \<longrightarrow> present g = finsert dst (present (fs w) |-| {|src|})"
    using os_rename_free [OF there free, of dst] by blast
  let ?w1 = "w\<lparr>fs := g, calls := calls w @ [Rename src dst]\<rparr>"
  have step1: "rename_call src dst w = (None, ?w1)"
    using g(1) by (simp add: rename_call_def)
  have vp: "videofile_path E ?w1 = src"
    by (simp add: videofile_path_def src_def)
  show ?thesis
  proof (cases "os_path_exists g poster")
    case False
    then have pp: "poster_path E False ?w1 = (Inr None, ?w1)"
      by (simp add: poster_path_def vp poster_def Let_def split_beta)
    have "present g |-| {|poster|} = present g"
      using False by (auto simp: os_path_exists_def)
    with g(3) have key: "os_path_exists (fs w) src \<longrightarrow>
        present g = finsert dst (present (fs w) |-| {|src|}) |-| {|poster|}"
      by auto
    from g(2) key step1 pp show ?thesis
      unfolding rename_and_save_def src_def [symmetric] dst_def [symmetric]
      by (simp add: save_def)
  next
    case True
    then have pp: "poster_path E False ?w1 = (Inr (Some poster), ?w1)"
      by (simp add: poster_path_def vp poster_def Let_def split_beta)
    obtain h where h: "os_unlink poster g = Inr h" "denied h = {||}"
      "present h = present g |-| {|poster|}"
      using os_unlink_free [OF True g(2)] by blast
    have ul: "unlink_call poster ?w1 = (None, ?w1\<lparr>fs := h, calls := calls ?w1 @ [Unlink poster]\<rparr>)"
      using h(1) by (simp add: unlink_call_def)
    from g(3) h(2,3) step1 pp ul show ?thesis
      unfolding rename_and_save_def src_def [symmetric] dst_def [symmetric]
      by (simp add: save_def)
  qed
qed

lemma rename_and_save_moves:
  fixes E w newname
  defines "src \<equiv> os_path_join (location E) (videofile_name (self w))"
    and "dst \<equiv> os_path_join (location E) newname"
  defines "poster \<equiv> fst (os_path_splitext src) @ ''.jpg''"
  assumes there: "os_path_exists (fs w) src" and free: "denied (fs w) = {||}"
  shows "\<exists>w'. rename_and_save E newname w = (None, w')
     \<and> self w' = (self w)\<lparr>videofile_name := newname\<rparr> \<and> row w' = Some (self w')
     \<and> present (fs w') = finsert dst (present (fs w) |-| {|src|}) |-| {|poster|}
     \<and> denied (fs w') = {||}
     \<and> (\<exists>cs. calls w' = calls w @ Rename src dst # cs)"
proof -
  have "os_path_lexists (fs w) src"
    using there by (simp add: os_path_exists_def os_path_lexists_def)
  from rename_and_save_ok [OF this [unfolded src_def] free, of newname] there
  show ?thesis unfolding src_def dst_def poster_def by auto
qed


lemma join_append:
  "\<not> startswith s CHR ''/'' \<Longrightarrow> os_path_join a (n @ s) = os_path_join a n @ s"
  by (cases n) (auto simp: os_path_join_def startswith_def)

lemma join_baks: "os_path_join a (n @ baks k) = os_path_join a n @ baks k"
proof (induction k arbitrary: n)
  case 0
  show ?case by simp
next
  case (Suc k)
  have "os_path_join a ((n @ ''.bak'') @ baks k) = os_path_join a (n @ ''.bak'') @ baks k"
    by (rule Suc)
  then show ?case by (simp add: baks_Suc join_append startswith_def)
qed

text \<open>
  Claim C4 says that a failing rename leaves version and filename in memory unmodified.
  The version is assigned before \<^verbatim>\<open>os.rename\<close> is called (line 130, and line 135 in the
  loop) and nothing restores it: a record at version 1 named \<^verbatim>\<open>x.mp4.bak\<close> whose file
  is missing is at version 0 in memory after the failed revert.
\<close>

theorem rename_failure_counterexample:
  "fst (reversion media True (stored [] ''x.mp4.bak'' 1)) = Some OSError
   \<and> version (self (stored [] ''x.mp4.bak'' 1)) = 1
   \<and> version (self (snd (reversion media True (stored [] ''x.mp4.bak'' 1)))) = 0"
  by (simp add: eval_defs)

text \<open>
  Claim C4, amended. When the rename of an advance or of a non-terminal revert fails, the
  method ends with the error of the rename; the filename in memory, the filesystem and the
  saved row are unmodified, and the attempted rename is the only call: no unlink, no save.
  The version in memory keeps the value assigned before the rename: the old version minus
  one on revert, and on advance the version the loop has reached, which is the old
  version when no file exists at the record's name.
\<close>

theorem rename_failure_keeps_name:
  assumes fail: "os_rename (os_path_join (location E) (videofile_name (self w)))
                   (os_path_join (location E) newname) (fs w) = Inl e"
    and target: "if revert
                 then version (self w) \<noteq> 0
                    \<and> os_path_splitext (videofile_name (self w)) = (newname, ''.bak'')
                    \<and> vers = version (self w) - 1
                 else backup_name E (fs w) (version (self w)) (videofile_name (self w))
                        = (vers, newname)"
  shows "reversion E revert w =
           (Some e, w\<lparr>self := (self w)\<lparr>version := vers\<rparr>,
                      calls := calls w @ [Rename (os_path_join (location E) (videofile_name (self w)))
                                                 (os_path_join (location E) newname)]\<rparr>)
       \<and> (\<not> revert \<and> \<not> os_path_exists (fs w) (os_path_join (location E) (videofile_name (self w)))
            \<longrightarrow> vers = version (self w))"
proof (cases revert)
  case True
  with target have t: "version (self w) \<noteq> 0"
    "os_path_splitext (videofile_name (self w)) = (newname, ''.bak'')"
    "vers = version (self w) - 1" by simp_all
  let ?w1 = "w\<lparr>self := (self w)\<lparr>version := version (self w) - 1\<rparr>\<rparr>"
  have "reversion E True w = rename_and_save E newname ?w1"
    using t by (simp add: reversion_def)
  also have "\<dots> = (Some e, ?w1\<lparr>calls := calls ?w1 @
         [Rename (os_path_join (location E) (videofile_name (self ?w1)))
                 (os_path_join (location E) newname)]\<rparr>)"
    using fail by (intro rename_and_save_fail) simp
  finally show ?thesis using True t(3) by simp
next
  case False
  with target have t: "backup_name E (fs w) (version (self w)) (videofile_name (self w))
                        = (vers, newname)" by simp
  let ?w1 = "w\<lparr>self := (self w)\<lparr>version := vers\<rparr>\<rparr>"
  have "reversion E False w = rename_and_save E newname ?w1"
    using t by (simp add: reversion_def)
  also have "\<dots> = (Some e, ?w1\<lparr>calls := calls ?w1 @
         [Rename (os_path_join (location E) (videofile_name (self ?w1)))
                 (os_path_join (location E) newname)]\<rparr>)"
    using fail by (intro rename_and_save_fail) simp
  finally have main: "reversion E False w = (Some e, w\<lparr>self := (self w)\<lparr>version := vers\<rparr>,
                      calls := calls w @ [Rename (os_path_join (location E) (videofile_name (self w)))
                                                 (os_path_join (location E) newname)]\<rparr>)"
    by simp
  have "vers = version (self w)"
    if "\<not> os_path_exists (fs w) (os_path_join (location E) (videofile_name (self w)))"
    using that t by (subst (asm) backup_name.simps) simp
  with main False show ?thesis by simp
qed

theorem rename_failure_keeps_name_witness:
  "os_rename (os_path_join (location media) (videofile_name (self (locked [''/media/x.mp4''] ''x.mp4'' 0))))
      (os_path_join (location media) ''x.mp4.bak'') (fs (locked [''/media/x.mp4''] ''x.mp4'' 0))
     = Inl OSError
   \<and> backup_name media (fs (locked [''/media/x.mp4''] ''x.mp4'' 0)) 0 ''x.mp4'' = (1, ''x.mp4.bak'')
   \<and> fst (reversion media False (locked [''/media/x.mp4''] ''x.mp4'' 0)) = Some OSError
   \<and> self (snd (reversion media False (locked [''/media/x.mp4''] ''x.mp4'' 0))) = video ''x.mp4'' 1
   \<and> row (snd (reversion media False (locked [''/media/x.mp4''] ''x.mp4'' 0))) = Some (video ''x.mp4'' 0)
   \<and> fs (snd (reversion media False (locked [''/media/x.mp4''] ''x.mp4'' 0)))
       = fs (locked [''/media/x.mp4''] ''x.mp4'' 0)
   \<and> calls (snd (reversion media False (locked [''/media/x.mp4''] ''x.mp4'' 0)))
       = [Rename ''/media/x.mp4'' ''/media/x.mp4.bak'']"
proof -
  let ?w = "locked [''/media/x.mp4''] ''x.mp4'' 0"
  have fail: "os_rename (os_path_join (location media) (videofile_name (self ?w)))
      (os_path_join (location media) ''x.mp4.bak'') (fs ?w) = Inl OSError"
    by (simp add: locked_def eval_defs)
  have loop: "backup_name media (fs ?w) 0 ''x.mp4'' = (1, ''x.mp4.bak'')"
    by (simp add: locked_def eval_defs)
  have target: "if False
                 then version (self ?w) \<noteq> 0
                    \<and> os_path_splitext (videofile_name (self ?w)) = (''x.mp4.bak'', ''.bak'')
                    \<and> 1 = version (self ?w) - 1
                 else backup_name media (fs ?w) (version (self ?w)) (videofile_name (self ?w))
                        = (1, ''x.mp4.bak'')"
    using loop by (simp add: locked_def stored_def video_def)
  show ?thesis
    using fail loop rename_failure_keeps_name [OF fail target]
    by (simp add: locked_def stored_def video_def media_def os_path_join_def startswith_def endswith_def)
qed

lemma advance_unfold:
  assumes "backup_name E (fs w) (version (self w)) (videofile_name (self w)) = (vers, newname)"
  shows "reversion E False w = rename_and_save E newname (w\<lparr>self := (self w)\<lparr>version := vers\<rparr>\<rparr>)"
  using assms by (simp add: reversion_def)

text \<open>
  Claim C10 says that an advance that completes has strictly increased the version, and
  that an advance raises when no file exists at the record's filename. When the filename
  is a symbolic link whose target is missing, \<^verbatim>\<open>os.path.exists\<close> is false, the loop does
  not run, \<^verbatim>\<open>os.rename\<close> renames the link onto itself, and the advance completes with
  version and filename as they were.
\<close>

theorem advance_noop_counterexample:
  "\<not> os_path_exists (fs (linked [''/media/x.mp4''] ''x.mp4'' 0)) ''/media/x.mp4''
   \<and> fst (reversion media False (linked [''/media/x.mp4''] ''x.mp4'' 0)) = None
   \<and> self (snd (reversion media False (linked [''/media/x.mp4''] ''x.mp4'' 0)))
       = self (linked [''/media/x.mp4''] ''x.mp4'' 0)
   \<and> calls (snd (reversion media False (linked [''/media/x.mp4''] ''x.mp4'' 0)))
       = [Rename ''/media/x.mp4'' ''/media/x.mp4'', Save]"
  by (simp add: linked_def eval_defs)

text \<open>
  Claim C10, amended. An advance that completes without raising has appended \<open>k\<close> times
  \<^verbatim>\<open>.bak\<close> to the filename and added \<open>k\<close> to the version; \<open>k\<close> is at least one when a
  file exists at the record's filename, and \<open>k\<close> is zero only when the filename is a
  dangling symbolic link. When nothing is at the record's filename, neither a file nor a
  dangling link, the loop does not run, the rename of the missing file onto itself raises
  \<^verbatim>\<open>OSError\<close>, and nothing but the attempted rename has happened. When the filename is a
  dangling link on a filesystem that refuses nothing, the advance completes with the
  object unchanged and saved.
\<close>

theorem advance_grows_chain_unless_link:
  "(reversion E False w = (None, w') \<longrightarrow>
      (\<exists>k. version (self w') = version (self w) + int k
          \<and> videofile_name (self w') = videofile_name (self w) @ baks k
          \<and> (os_path_exists (fs w) (os_path_join (location E) (videofile_name (self w)))
               \<longrightarrow> 0 < k)
          \<and> (k = 0 \<longrightarrow>
               os_path_join (location E) (videofile_name (self w)) |\<in>| dangling (fs w)
             \<and> \<not> os_path_exists (fs w) (os_path_join (location E) (videofile_name (self w))))))
   \<and> (\<not> os_path_lexists (fs w) (os_path_join (location E) (videofile_name (self w))) \<longrightarrow>
        reversion E False w =
          (Some OSError,
           w\<lparr>calls := calls w @ [Rename (os_path_join (location E) (videofile_name (self w)))
                                       (os_path_join (location E) (videofile_name (self w)))]\<rparr>))
   \<and> (\<not> os_path_exists (fs w) (os_path_join (location E) (videofile_name (self w)))
        \<and> os_path_lexists (fs w) (os_path_join (location E) (videofile_name (self w)))
        \<and> denied (fs w) = {||} \<longrightarrow>
        (\<exists>w'. reversion E False w = (None, w') \<and> self w' = self w \<and> row w' = Some (self w)))"
proof (intro conjI impI)
  assume completes: "reversion E False w = (None, w')"
  let ?n = "videofile_name (self w)" and ?v = "version (self w)"
  let ?src = "os_path_join (location E) ?n"
  obtain k where k: "backup_name E (fs w) ?v ?n = (?v + int k, ?n @ baks k)"
    "\<not> os_path_exists (fs w) (os_path_join (location E) (?n @ baks k))"
    using backup_name_result [of E "fs w" ?v ?n] by blast
  let ?w1 = "w\<lparr>self := (self w)\<lparr>version := ?v + int k\<rparr>\<rparr>"
  have "rename_and_save E (?n @ baks k) ?w1 = (None, w')"
    using completes advance_unfold [OF k(1)] by simp
  from rename_and_save_None [OF this]
  have src: "os_path_lexists (fs w) ?src"
    and self': "self w' = (self ?w1)\<lparr>videofile_name := ?n @ baks k\<rparr>" by simp_all
  have pos: "0 < k" if "os_path_exists (fs w) ?src"
  proof (rule ccontr)
    assume "\<not> 0 < k"
    with k(2) that show False by simp
  qed
  have zero: "?src |\<in>| dangling (fs w) \<and> \<not> os_path_exists (fs w) ?src" if "k = 0"
    using that k(2) src by (simp add: os_path_lexists_def os_path_exists_def)
  have "version (self w') = ?v + int k" "videofile_name (self w') = ?n @ baks k"
    using self' by simp_all
  with pos zero
  show "\<exists>k. version (self w') = ?v + int k \<and> videofile_name (self w') = ?n @ baks k
          \<and> (os_path_exists (fs w) ?src \<longrightarrow> 0 < k)
          \<and> (k = 0 \<longrightarrow> ?src |\<in>| dangling (fs w) \<and> \<not> os_path_exists (fs w) ?src)"
    by blast
next
  let ?n = "videofile_name (self w)" and ?v = "version (self w)"
  let ?src = "os_path_join (location E) ?n"
  assume missing: "\<not> os_path_lexists (fs w) ?src"
  then have "\<not> os_path_exists (fs w) ?src"
    by (simp add: os_path_lexists_def os_path_exists_def)
  then have "backup_name E (fs w) ?v ?n = (?v, ?n)"
    by (subst backup_name.simps) simp
  then have "reversion E False w = rename_and_save E ?n w"
    using advance_unfold [of E w ?v ?n] by simp
  moreover have "os_rename ?src ?src (fs w) = Inl OSError"
    using missing by (simp add: os_rename_def)
  ultimately show "reversion E False w = (Some OSError, w\<lparr>calls := calls w @ [Rename ?src ?src]\<rparr>)"
    using rename_and_save_fail [of E w ?n OSError] by simp
next
  let ?n = "videofile_name (self w)" and ?v = "version (self w)"
  let ?src = "os_path_join (location E) ?n"
  assume "\<not> os_path_exists (fs w) ?src \<and> os_path_lexists (fs w) ?src \<and> denied (fs w) = {||}"
  then have link: "\<not> os_path_exists (fs w) ?src" "os_path_lexists (fs w) ?src"
    and free: "denied (fs w) = {||}" by simp_all
  from link(1) have "backup_name E (fs w) ?v ?n = (?v, ?n)"
    by (subst backup_name.simps) simp
  then have unfold: "reversion E False w = rename_and_save E ?n w"
    using advance_unfold [of E w ?v ?n] by simp
  from rename_and_save_ok [OF link(2) free, of ?n]
  obtain w' where "rename_and_save E ?n w = (None, w')"
    "self w' = (self w)\<lparr>videofile_name := ?n\<rparr>" "row w' = Some (self w')"
    by blast
  with unfold show "\<exists>w'. reversion E False w = (None, w') \<and> self w' = self w \<and> row w' = Some (self w)"
    by simp
qed

theorem advance_grows_chain_unless_link_witness:
  "reversion media False (stored [''/media/x.mp4'', ''/media/x.mp4.bak''] ''x.mp4'' 0)
     = (None, \<lparr>fs = disk [''/media/x.mp4.bak.bak'', ''/media/x.mp4.bak''],
               self = video ''x.mp4.bak.bak'' 2, row = Some (video ''x.mp4.bak.bak'' 2),
               calls = [Rename ''/media/x.mp4'' ''/media/x.mp4.bak.bak'', Save]\<rparr>)
   \<and> os_path_exists (fs (stored [''/media/x.mp4'', ''/media/x.mp4.bak''] ''x.mp4'' 0)) ''/media/x.mp4''
   \<and> (\<exists>k>0. (2::int) = 0 + int k \<and> ''x.mp4.bak.bak'' = ''x.mp4'' @ baks k)
   \<and> \<not> os_path_lexists (fs (stored [] ''x.mp4'' 0)) ''/media/x.mp4''
   \<and> reversion media False (stored [] ''x.mp4'' 0)
       = (Some OSError, (stored [] ''x.mp4'' 0)\<lparr>calls := [Rename ''/media/x.mp4'' ''/media/x.mp4'']\<rparr>)
   \<and> \<not> os_path_exists (fs (linked [''/media/x.mp4''] ''x.mp4'' 0)) ''/media/x.mp4''
   \<and> os_path_lexists (fs (linked [''/media/x.mp4''] ''x.mp4'' 0)) ''/media/x.mp4''
   \<and> denied (fs (linked [''/media/x.mp4''] ''x.mp4'' 0)) = {||}
   \<and> (\<exists>w'. reversion media False (linked [''/media/x.mp4''] ''x.mp4'' 0) = (None, w')
          \<and> self w' = self (linked [''/media/x.mp4''] ''x.mp4'' 0))"
proof -
  let ?w = "stored [''/media/x.mp4'', ''/media/x.mp4.bak''] ''x.mp4'' 0"
  let ?w' = "\<lparr>fs = disk [''/media/x.mp4.bak.bak'', ''/media/x.mp4.bak''],
               self = video ''x.mp4.bak.bak'' 2, row = Some (video ''x.mp4.bak.bak'' 2),
               calls = [Rename ''/media/x.mp4'' ''/media/x.mp4.bak.bak'', Save]\<rparr>"
  let ?l = "linked [''/media/x.mp4''] ''x.mp4'' 0"
  have run: "reversion media False ?w = (None, ?w')"
    by (simp add: eval_defs)
  have there: "os_path_exists (fs ?w) ''/media/x.mp4''"
    by (simp add: eval_defs)
  have grown: "\<exists>k>0. (2::int) = 0 + int k \<and> ''x.mp4.bak.bak'' = ''x.mp4'' @ baks k"
    using run there advance_grows_chain_unless_link [of media ?w ?w']
    by (simp add: stored_def video_def media_def os_path_join_def startswith_def endswith_def)
  have missing: "\<not> os_path_lexists (fs (stored [] ''x.mp4'' 0)) ''/media/x.mp4''"
    by (simp add: eval_defs)
  have raised: "reversion media False (stored [] ''x.mp4'' 0)
       = (Some OSError, (stored [] ''x.mp4'' 0)\<lparr>calls := [Rename ''/media/x.mp4'' ''/media/x.mp4'']\<rparr>)"
    using missing advance_grows_chain_unless_link [of media "stored [] ''x.mp4'' 0" ?l]
    by (simp add: stored_def video_def media_def os_path_join_def startswith_def endswith_def)
  have link: "\<not> os_path_exists (fs ?l) ''/media/x.mp4''" "os_path_lexists (fs ?l) ''/media/x.mp4''"
    "denied (fs ?l) = {||}"
    by (simp_all add: linked_def eval_defs)
  have noop: "\<exists>w'. reversion media False ?l = (None, w') \<and> self w' = self ?l"
    using link advance_grows_chain_unless_link [of media ?l ?l]
    by (simp add: linked_def stored_def video_def media_def os_path_join_def startswith_def
        endswith_def) blast
  show ?thesis using run there grown missing raised link noop by simp
qed

lemma baks_Suc_right: "baks (Suc k) = baks k @ ''.bak''"
  by (induction k) (simp_all add: baks_Suc)

text \<open>
  Claim C1. For a record whose filename denotes an existing file, on a filesystem that
  refuses nothing, an advance appends \<^verbatim>\<open>.bak\<close> and adds one to the version once for
  every candidate name at which a file exists: there are \<open>k\<close> of them, at least one,
  and the first candidate without a file has \<open>k\<close> suffixes. The advance does not raise,
  the file is renamed to that candidate (it exists there afterwards and no longer at the
  old name), and the candidate and the version are stored and saved. With only
  \<^verbatim>\<open>x.mp4\<close> on disk this gives \<^verbatim>\<open>x.mp4.bak\<close> and version 1; with \<^verbatim>\<open>x.mp4\<close> and
  \<^verbatim>\<open>x.mp4.bak\<close> on disk it gives \<^verbatim>\<open>x.mp4.bak.bak\<close> and version 2.
\<close>

theorem advance_finds_backup_name:
  "(os_path_exists (fs w) (os_path_join (location E) (videofile_name (self w)))
      \<and> denied (fs w) = {||} \<longrightarrow>
     (\<exists>k>0. \<exists>w'.
        (\<forall>j<k. os_path_exists (fs w)
                  (os_path_join (location E) (videofile_name (self w) @ baks j)))
      \<and> \<not> os_path_exists (fs w) (os_path_join (location E) (videofile_name (self w) @ baks k))
      \<and> reversion E False w = (None, w')
      \<and> videofile_name (self w') = videofile_name (self w) @ baks k
      \<and> version (self w') = version (self w) + int k
      \<and> row w' = Some (self w')
      \<and> os_path_exists (fs w') (os_path_join (location E) (videofile_name (self w')))
      \<and> \<not> os_path_exists (fs w') (os_path_join (location E) (videofile_name (self w)))
      \<and> (\<exists>cs. calls w' = calls w
              @ Rename (os_path_join (location E) (videofile_name (self w)))
                       (os_path_join (location E) (videofile_name (self w'))) # cs)))
   \<and> reversion media False (stored [''/media/x.mp4''] ''x.mp4'' 0)
       = (None, \<lparr>fs = disk [''/media/x.mp4.bak''],
                 self = video ''x.mp4.bak'' 1, row = Some (video ''x.mp4.bak'' 1),
                 calls = [Rename ''/media/x.mp4'' ''/media/x.mp4.bak'', Save]\<rparr>)
   \<and> reversion media False (stored [''/media/x.mp4'', ''/media/x.mp4.bak''] ''x.mp4'' 0)
       = (None, \<lparr>fs = disk [''/media/x.mp4.bak.bak'', ''/media/x.mp4.bak''],
                 self = video ''x.mp4.bak.bak'' 2, row = Some (video ''x.mp4.bak.bak'' 2),
                 calls = [Rename ''/media/x.mp4'' ''/media/x.mp4.bak.bak'', Save]\<rparr>)"
proof (intro conjI impI)
  let ?n = "videofile_name (self w)" and ?v = "version (self w)"
  let ?src = "os_path_join (location E) ?n"
  assume "os_path_exists (fs w) ?src \<and> denied (fs w) = {||}"
  then have there: "os_path_exists (fs w) ?src" and free: "denied (fs w) = {||}" by simp_all
  obtain k where k: "backup_name E (fs w) ?v ?n = (?v + int k, ?n @ baks k)"
    "\<forall>j<k. os_path_exists (fs w) (os_path_join (location E) (?n @ baks j))"
    "\<not> os_path_exists (fs w) (os_path_join (location E) (?n @ baks k))"
    using backup_name_result [of E "fs w" ?v ?n] by blast
  have "k \<noteq> 0"
  proof
    assume "k = 0"
    with k(3) there show False by simp
  qed
  then obtain i where i: "k = Suc i" by (cases k) simp_all
  let ?dst = "os_path_join (location E) (?n @ baks k)"
  let ?poster = "fst (os_path_splitext ?src) @ ''.jpg''"
  let ?w1 = "w\<lparr>self := (self w)\<lparr>version := ?v + int k\<rparr>\<rparr>"
  have "os_path_exists (fs ?w1) (os_path_join (location E) (videofile_name (self ?w1)))"
    "denied (fs ?w1) = {||}"
    using there free by simp_all
  from rename_and_save_moves [OF this, of "?n @ baks k"]
  obtain w' where w': "rename_and_save E (?n @ baks k) ?w1 = (None, w')"
    "self w' = (self ?w1)\<lparr>videofile_name := ?n @ baks k\<rparr>" "row w' = Some (self w')"
    "present (fs w') = finsert ?dst (present (fs w) |-| {|?src|}) |-| {|?poster|}"
    "\<exists>cs. calls w' = calls w @ Rename ?src ?dst # cs"
    by auto
  have run: "reversion E False w = (None, w')"
    using advance_unfold [OF k(1)] w'(1) by simp
  have "?dst = os_path_join (location E) ?n @ baks k" by (rule join_baks)
  then have "last ?dst = CHR ''k''" by (simp add: i baks_Suc_right)
  moreover have "last ?poster = CHR ''g''" by simp
  ultimately have "?dst \<noteq> ?poster" by auto
  then have new: "os_path_exists (fs w') ?dst"
    by (simp add: w'(4) os_path_exists_def)
  have old: "\<not> os_path_exists (fs w') ?src"
    using k(3) there by (auto simp: w'(4) os_path_exists_def)
  have name': "videofile_name (self w') = ?n @ baks k" and vers': "version (self w') = ?v + int k"
    using w'(2) by simp_all
  show "\<exists>k>0. \<exists>w'.
        (\<forall>j<k. os_path_exists (fs w) (os_path_join (location E) (?n @ baks j)))
      \<and> \<not> os_path_exists (fs w) (os_path_join (location E) (?n @ baks k))
      \<and> reversion E False w = (None, w')
      \<and> videofile_name (self w') = ?n @ baks k
      \<and> version (self w') = ?v + int k
      \<and> row w' = Some (self w')
      \<and> os_path_exists (fs w') (os_path_join (location E) (videofile_name (self w')))
      \<and> \<not> os_path_exists (fs w') ?src
      \<and> (\<exists>cs. calls w' = calls w
              @ Rename ?src (os_path_join (location E) (videofile_name (self w'))) # cs)"
    using \<open>k \<noteq> 0\<close> k(2,3) run name' vers' w'(3,5) new old
    by (intro exI [of _ k] exI [of _ w']) simp
next
  show "reversion media False (stored [''/media/x.mp4''] ''x.mp4'' 0)
       = (None, \<lparr>fs = disk [''/media/x.mp4.bak''],
                 self = video ''x.mp4.bak'' 1, row = Some (video ''x.mp4.bak'' 1),
                 calls = [Rename ''/media/x.mp4'' ''/media/x.mp4.bak'', Save]\<rparr>)"
    by (simp add: eval_defs)
next
  show "reversion media False (stored [''/media/x.mp4'', ''/media/x.mp4.bak''] ''x.mp4'' 0)
       = (None, \<lparr>fs = disk [''/media/x.mp4.bak.bak'', ''/media/x.mp4.bak''],
                 self = video ''x.mp4.bak.bak'' 2, row = Some (video ''x.mp4.bak.bak'' 2),
                 calls = [Rename ''/media/x.mp4'' ''/media/x.mp4.bak.bak'', Save]\<rparr>)"
    by (simp add: eval_defs)
qed

theorem advance_finds_backup_name_witness:
  "os_path_exists (fs (stored [''/media/x.mp4'', ''/media/x.jpg''] ''x.mp4'' 0))
      (os_path_join (location media) ''x.mp4'')
   \<and> denied (fs (stored [''/media/x.mp4'', ''/media/x.jpg''] ''x.mp4'' 0)) = {||}
   \<and> reversion media False (stored [''/media/x.mp4'', ''/media/x.jpg''] ''x.mp4'' 0)
       = (None, \<lparr>fs = disk [''/media/x.mp4.bak''],
                 self = video ''x.mp4.bak'' 1, row = Some (video ''x.mp4.bak'' 1),
                 calls = [Rename ''/media/x.mp4'' ''/media/x.mp4.bak'', Unlink ''/media/x.jpg'',
                          Save]\<rparr>)"
  using advance_finds_backup_name [of "stored [''/media/x.mp4'', ''/media/x.jpg''] ''x.mp4'' 0" media]
  by (simp add: eval_defs baks_def finsert_fminus_if)

lemma join_last_component:
  assumes "CHR ''/'' \<notin> set n" "n \<noteq> []"
  shows "\<exists>h. os_path_join a n = h @ n"
  using assms by (cases n) (auto simp: os_path_join_def startswith_def)

lemma revert_unfold:
  assumes "version (self w) \<noteq> 0"
    and "os_path_splitext (videofile_name (self w)) = (newname, ''.bak'')"
  shows "reversion E True w =
           rename_and_save E newname (w\<lparr>self := (self w)\<lparr>version := version (self w) - 1\<rparr>\<rparr>)"
  using assms by (simp add: reversion_def)

text \<open>
  Claim C2. A record at version 0 named \<^verbatim>\<open>x.mp4\<close> whose file exists, with no file at
  \<^verbatim>\<open>x.mp4.bak\<close>, on a filesystem that refuses nothing, under any storage root: an
  advance followed by a revert both complete without raising and leave the object as it
  was, at version 0 under the name \<^verbatim>\<open>x.mp4\<close>; that object is the saved row, and the
  file is back at its name with nothing left at \<^verbatim>\<open>x.mp4.bak\<close>.
\<close>

theorem advance_then_revert_restores:
  assumes name: "videofile_name (self w) = ''x.mp4''" and vers: "version (self w) = 0"
    and there: "os_path_exists (fs w) (os_path_join (location E) ''x.mp4'')"
    and free: "\<not> os_path_exists (fs w) (os_path_join (location E) ''x.mp4.bak'')"
    and allowed: "denied (fs w) = {||}"
  shows "\<exists>w1 w2. reversion E False w = (None, w1) \<and> reversion E True w1 = (None, w2)
           \<and> version (self w2) = 0 \<and> videofile_name (self w2) = ''x.mp4''
           \<and> self w2 = self w \<and> row w2 = Some (self w)
           \<and> os_path_exists (fs w2) (os_path_join (location E) ''x.mp4'')
           \<and> \<not> os_path_exists (fs w2) (os_path_join (location E) ''x.mp4.bak'')"
proof -
  let ?src = "os_path_join (location E) ''x.mp4''"
  let ?bak = "os_path_join (location E) ''x.mp4.bak''"
  have bak: "?bak = ?src @ ''.bak''"
    using join_append [of "''.bak''" "location E" "''x.mp4''"] by (simp add: startswith_def)
  have loop: "backup_name E (fs w) (version (self w)) (videofile_name (self w)) = (1, ''x.mp4.bak'')"
    using there free
    by (subst backup_name.simps, subst backup_name.simps) (simp add: name vers)
  \<comment> \<open>the advance\<close>
  let ?w0 = "w\<lparr>self := (self w)\<lparr>version := 1\<rparr>\<rparr>"
  let ?poster1 = "fst (os_path_splitext ?src) @ ''.jpg''"
  have "os_path_exists (fs ?w0) (os_path_join (location E) (videofile_name (self ?w0)))"
    "denied (fs ?w0) = {||}"
    using there allowed name by simp_all
  from rename_and_save_moves [OF this, of "''x.mp4.bak''"]
  obtain w1 where w1: "rename_and_save E ''x.mp4.bak'' ?w0 = (None, w1)"
    "self w1 = (self ?w0)\<lparr>videofile_name := ''x.mp4.bak''\<rparr>" "row w1 = Some (self w1)"
    "present (fs w1) = finsert ?bak (present (fs w) |-| {|?src|}) |-| {|?poster1|}"
    "denied (fs w1) = {||}"
    by (auto simp: name)
  have run1: "reversion E False w = (None, w1)"
    using advance_unfold [OF loop] w1(1) by simp
  have "last ?bak = CHR ''k''" "last ?poster1 = CHR ''g''" by (simp_all add: bak)
  then have "?bak \<noteq> ?poster1" by auto
  then have bak1: "os_path_exists (fs w1) ?bak"
    by (simp add: w1(4) os_path_exists_def)
  \<comment> \<open>the revert\<close>
  have ext: "os_path_splitext ''x.mp4.bak'' = (''x.mp4'', ''.bak'')"
    by (simp add: os_path_splitext_def rfind_def skip_dots.simps)
  let ?w1' = "w1\<lparr>self := (self w1)\<lparr>version := version (self w1) - 1\<rparr>\<rparr>"
  let ?poster2 = "fst (os_path_splitext ?bak) @ ''.jpg''"
  have unfold2: "reversion E True w1 = rename_and_save E ''x.mp4'' ?w1'"
    using w1(2) ext by (intro revert_unfold) simp_all
  have "os_path_exists (fs ?w1') (os_path_join (location E) (videofile_name (self ?w1')))"
    "denied (fs ?w1') = {||}"
    using bak1 w1(2,5) by simp_all
  from rename_and_save_moves [OF this, of "''x.mp4''"]
  obtain w2 where w2: "rename_and_save E ''x.mp4'' ?w1' = (None, w2)"
    "self w2 = (self ?w1')\<lparr>videofile_name := ''x.mp4''\<rparr>" "row w2 = Some (self w2)"
    "present (fs w2) = finsert ?src (present (fs w1) |-| {|?bak|}) |-| {|?poster2|}"
    by (auto simp: w1(2))
  have run2: "reversion E True w1 = (None, w2)"
    using unfold2 w2(1) by simp
  have same: "self w2 = self w"
    using w2(2) w1(2) name vers by simp
  have "last ?src = CHR ''4''" "last ?poster2 = CHR ''g''"
    using join_last_component [of "''x.mp4''" "location E"] by auto
  then have "?src \<noteq> ?poster2" by auto
  then have restored: "os_path_exists (fs w2) ?src"
    by (simp add: w2(4) os_path_exists_def)
  have "?src \<noteq> ?bak" by (simp add: bak)
  then have gone: "\<not> os_path_exists (fs w2) ?bak"
    by (simp add: w2(4) os_path_exists_def)
  show ?thesis
    using run1 run2 same w2(3) restored gone name vers by auto
qed

theorem advance_then_revert_restores_witness:
  "videofile_name (self (stored [''/media/x.mp4'', ''/media/x.jpg''] ''x.mp4'' 0)) = ''x.mp4''
   \<and> version (self (stored [''/media/x.mp4'', ''/media/x.jpg''] ''x.mp4'' 0)) = 0
   \<and> os_path_exists (fs (stored [''/media/x.mp4'', ''/media/x.jpg''] ''x.mp4'' 0))
        (os_path_join (location media) ''x.mp4'')
   \<and> \<not> os_path_exists (fs (stored [''/media/x.mp4'', ''/media/x.jpg''] ''x.mp4'' 0))
        (os_path_join (location media) ''x.mp4.bak'')
   \<and> denied (fs (stored [''/media/x.mp4'', ''/media/x.jpg''] ''x.mp4'' 0)) = {||}
   \<and> (\<exists>w1 w2. reversion media False (stored [''/media/x.mp4'', ''/media/x.jpg''] ''x.mp4'' 0) = (None, w1)
         \<and> reversion media True w1 = (None, w2)
         \<and> version (self w2) = 0 \<and> videofile_name (self w2) = ''x.mp4'')"
proof -
  let ?w = "stored [''/media/x.mp4'', ''/media/x.jpg''] ''x.mp4'' 0"
  have name: "videofile_name (self ?w) = ''x.mp4''" and vers: "version (self ?w) = 0"
    by (simp_all add: stored_def video_def)
  have there: "os_path_exists (fs ?w) (os_path_join (location media) ''x.mp4'')"
    and free: "\<not> os_path_exists (fs ?w) (os_path_join (location media) ''x.mp4.bak'')"
    and allowed: "denied (fs ?w) = {||}"
    by (simp_all add: eval_defs)
  from advance_then_revert_restores [OF name vers there free allowed]
  have "\<exists>w1 w2. reversion media False ?w = (None, w1) \<and> reversion media True w1 = (None, w2)
         \<and> version (self w2) = 0 \<and> videofile_name (self w2) = ''x.mp4''"
    by blast
  with name vers there free allowed show ?thesis by blast
qed

end
